theory Spec2Isabelle
  imports Complex_Main
begin

section \<open>COT monitor: the normalizer and the signal detector of cot_monitor.py\<close>

text \<open>
  The embedding covers \<open>calculate_net_positions\<close> and \<open>detect_signals\<close>.

  Numbers. Python floats are modelled by the real numbers they denote. On finite floats
  the comparisons \<open><\<close>, \<open>>\<close>, \<open>==\<close> and the builtins \<open>min\<close> and \<open>max\<close> agree with the
  same operations on the denoted reals, so every decision the detector takes is the one
  the model takes. Not modelled: NaN and the infinities, and the rounding of float
  arithmetic (the model subtracts and rounds exactly).
\<close>

subsection \<open>Python values, exceptions, builtins\<close>

text \<open>
  The exceptions the two functions can raise. \<open>Unmodelled\<close> is not a Python exception: it
  marks a string on which the model of \<open>float\<close> below does not say what Python does.
\<close>

datatype error = KeyError | ValueError | TypeError | IndexError | Unmodelled

text \<open>A decoded JSON value, as \<open>response.json()\<close> hands it to the normalizer.\<close>

datatype jval =
    JNull
  | JBool bool
  | JNum real
  | JStr string
  | JArr "jval list"
  | JObj "(string \<times> jval) list"








text \<open>A slice bound \<open>i\<close> against a sequence of length \<open>n\<close>: negative bounds count from the end,
  and every bound is clipped into \<open>0..n\<close>.\<close>

definition slice_bound :: "nat \<Rightarrow> int \<Rightarrow> nat" where
  "slice_bound n i = (if i < 0 then nat (i + int n) else min (nat i) n)"

text \<open>\<open>xs[lo:hi]\<close> with either bound optional.\<close>

definition py_slice :: "int option \<Rightarrow> int option \<Rightarrow> 'a list \<Rightarrow> 'a list" where
  "py_slice lo hi xs =
     (let n = length xs;
          a = (case lo of None \<Rightarrow> 0 | Some i \<Rightarrow> slice_bound n i);
          b = (case hi of None \<Rightarrow> n | Some j \<Rightarrow> slice_bound n j)
      in drop a (take b xs))"

text \<open>\<open>xs[i]\<close>, raising IndexError out of range.\<close>

definition py_item :: "'a list \<Rightarrow> int \<Rightarrow> error + 'a" where
  "py_item xs i =
     (let k = (if i < 0 then i + int (length xs) else i)
      in if k < 0 \<or> int (length xs) \<le> k then Inl IndexError else Inr (xs ! nat k))"

text \<open>\<open>min(xs)\<close> and \<open>max(xs)\<close>: ValueError on an empty sequence, otherwise one pass that
  keeps the first smallest (largest) element.\<close>

fun py_min :: "real list \<Rightarrow> error + real" where
  "py_min [] = Inl ValueError"
| "py_min (x # xs) = Inr (foldl (\<lambda>m y. if y < m then y else m) x xs)"

fun py_max :: "real list \<Rightarrow> error + real" where
  "py_max [] = Inl ValueError"
| "py_max (x # xs) = Inr (foldl (\<lambda>m y. if y > m then y else m) x xs)"

text \<open>\<open>round(x, ndigits)\<close> on a float: to the nearest multiple of \<open>10^-ndigits\<close>, a tie going to
  the even one.\<close>

definition round_half_even :: "real \<Rightarrow> int" where
  "round_half_even y =
     (let f = \<lfloor>y\<rfloor>; d = y - of_int f
      in if d < 1 / 2 then f else if 1 / 2 < d then f + 1 else if even f then f else f + 1)"

definition py_round :: "real \<Rightarrow> nat \<Rightarrow> real" where
  "py_round x ndigits = of_int (round_half_even (x * 10 ^ ndigits)) / 10 ^ ndigits"

subsection \<open>The normalizer: calculate_net_positions\<close>

text \<open>A processed record: the dict with the keys date, hf_net, retail_net, hf_long and
  hf_short that the normalizer appends. The date is passed through as it came.\<close>

record position =
  date :: jval
  hf_net :: real
  retail_net :: real
  hf_long :: real
  hf_short :: real





subsection \<open>The detector: detect_signals\<close>

text \<open>
  The status labels. The source's literals carry emoji, so each is a constructor here:
  \<open>BULLISH_DIVERGENCE\<close> is the fire sign followed by "BULLISH DIVERGENCE",
  \<open>BEARISH_DIVERGENCE\<close> the fire sign followed by "BEARISH DIVERGENCE",
  \<open>EXTREME_BULLISH\<close> the warning sign followed by "EXTREME BULLISH",
  \<open>EXTREME_BEARISH\<close> the warning sign followed by "EXTREME BEARISH",
  \<open>NEUTRAL\<close> is "NEUTRAL" and \<open>INSUFFICIENT_DATA\<close> is "INSUFFICIENT_DATA".
\<close>

datatype status =
    BULLISH_DIVERGENCE
  | BEARISH_DIVERGENCE
  | EXTREME_BULLISH
  | EXTREME_BEARISH
  | NEUTRAL
  | INSUFFICIENT_DATA

text \<open>The values of the result dict, which is kept as the list of its items in the order
  of the dict display.\<close>

datatype pyval = VNum real | VBool bool | VStatus status | VJson jval

type_synonym signal_result = "(string \<times> pyval) list"

text \<open>Lines 170 to 175: the extremes over \<open>extreme_data\<close> and the two flags.\<close>

definition extremes :: "real \<Rightarrow> position list \<Rightarrow> error + bool \<times> bool" where
  "extremes current_net extreme_data =
     (let hf_nets = map hf_net extreme_data
      in case py_min hf_nets of Inl e \<Rightarrow> Inl e | Inr extreme_low \<Rightarrow>
        (case py_max hf_nets of Inl e \<Rightarrow> Inl e | Inr extreme_high \<Rightarrow>
           Inr (current_net = extreme_low, current_net = extreme_high)))"

text \<open>Lines 179 to 189: the two divergence flags over \<open>divergence_data\<close>. Python's
  \<open>and\<close> reads \<open>divergence_nets[-1]\<close> only when its left operand is true.\<close>

definition divergences :: "real \<Rightarrow> position list \<Rightarrow> error + bool \<times> bool" where
  "divergences current_net divergence_data =
     (let divergence_nets = map hf_net divergence_data
      in case py_min (py_slice (Some (- 26)) None divergence_nets) of Inl e \<Rightarrow> Inl e
         | Inr recent_low \<Rightarrow>
        (case py_min (py_slice (Some (- 52)) (Some (- 26)) divergence_nets) of Inl e \<Rightarrow> Inl e
         | Inr older_low \<Rightarrow>
        (case (if recent_low > older_low
               then (case py_item divergence_nets (- 1) of Inl e \<Rightarrow> Inl e
                     | Inr oldest \<Rightarrow> Inr (current_net < oldest))
               else Inr False) of Inl e \<Rightarrow> Inl e
         | Inr bullish_divergence \<Rightarrow>
        (case py_max (py_slice (Some (- 26)) None divergence_nets) of Inl e \<Rightarrow> Inl e
         | Inr recent_high \<Rightarrow>
        (case py_max (py_slice (Some (- 52)) (Some (- 26)) divergence_nets) of Inl e \<Rightarrow> Inl e
         | Inr older_high \<Rightarrow>
        (case (if recent_high < older_high
               then (case py_item divergence_nets (- 1) of Inl e \<Rightarrow> Inl e
                     | Inr oldest \<Rightarrow> Inr (current_net > oldest))
               else Inr False) of Inl e \<Rightarrow> Inl e
         | Inr bearish_divergence \<Rightarrow> Inr (bullish_divergence, bearish_divergence)))))))"

text \<open>Lines 192 to 201: the status from the four flags.\<close>

definition classify :: "bool \<Rightarrow> bool \<Rightarrow> bool \<Rightarrow> bool \<Rightarrow> status" where
  "classify bullish_divergence bearish_divergence extreme_bullish extreme_bearish =
     (if bullish_divergence then BULLISH_DIVERGENCE
      else if bearish_divergence then BEARISH_DIVERGENCE
      else if extreme_bullish then EXTREME_BULLISH
      else if extreme_bearish then EXTREME_BEARISH
      else NEUTRAL)"

text \<open>Lines 153 to 160: the dict returned for a series of fewer than two records.\<close>

definition insufficient_result :: signal_result where
  "insufficient_result =
     [(''current_net'', VNum 0),
      (''bullish_divergence'', VBool False),
      (''bearish_divergence'', VBool False),
      (''extreme_bullish'', VBool False),
      (''extreme_bearish'', VBool False),
      (''status'', VStatus INSUFFICIENT_DATA)]"

text \<open>Lines 203 to 213: the dict returned otherwise.\<close>

definition signal_result ::
  "position \<Rightarrow> real \<Rightarrow> bool \<Rightarrow> bool \<Rightarrow> bool \<Rightarrow> bool \<Rightarrow> status \<Rightarrow> signal_result" where
  "signal_result current current_net bullish_divergence bearish_divergence
       extreme_bullish extreme_bearish status =
     [(''current_net'', VNum (py_round current_net 2)),
      (''hf_long'', VNum (py_round (hf_long current) 2)),
      (''hf_short'', VNum (py_round (hf_short current) 2)),
      (''bullish_divergence'', VBool bullish_divergence),
      (''bearish_divergence'', VBool bearish_divergence),
      (''extreme_bullish'', VBool extreme_bullish),
      (''extreme_bearish'', VBool extreme_bearish),
      (''status'', VStatus status),
      (''date'', VJson (date current))]"

definition detect_signals :: "position list \<Rightarrow> int \<Rightarrow> int \<Rightarrow> error + signal_result" where
  "detect_signals data divergence_weeks extreme_weeks =
     (if length data < 2 then Inr insufficient_result
      else
        let current = data ! 0;
            current_net = hf_net current;
            divergence_data = py_slice None (Some (min divergence_weeks (int (length data)))) data;
            extreme_data = py_slice None (Some (min extreme_weeks (int (length data)))) data
        in case extremes current_net extreme_data of Inl e \<Rightarrow> Inl e
           | Inr (extreme_bullish, extreme_bearish) \<Rightarrow>
          (case divergences current_net divergence_data of Inl e \<Rightarrow> Inl e
           | Inr (bullish_divergence, bearish_divergence) \<Rightarrow>
             Inr (signal_result current current_net bullish_divergence bearish_divergence
                    extreme_bullish extreme_bearish
                    (classify bullish_divergence bearish_divergence
                       extreme_bullish extreme_bearish))))"

subsection \<open>Sample series\<close>

text \<open>One processed week with the given long and short holdings of the hedge funds.\<close>

definition week :: "real \<Rightarrow> real \<Rightarrow> position" where
  "week long short =
     \<lparr> date = JStr ''2024-01-02'', hf_net = long - short, retail_net = 0,
       hf_long = long, hf_short = short \<rparr>"

definition two_weeks :: "position list" where
  "two_weeks = [week 120 100, week 150 100]"

definition short_history :: "position list" where
  "short_history = week 100 100 # replicate 26 (week 101 100)"

text \<open>Scenario C of the specification: the newest 26 weeks have the higher minimum, and
  the current week is below the oldest week of the window.\<close>

definition scenario_c :: "position list" where
  "scenario_c = replicate 26 (week 105 100) @ replicate 25 (week 100 100) @ [week 110 100]"

definition fractional_weeks :: "position list" where
  "fractional_weeks = replicate 52 (week (1601 / 16) 0)"

text \<open>Scenario D of the specification: 156 weeks, the current one the highest.\<close>

definition scenario_d :: "position list" where
  "scenario_d = week 110 100 # replicate 155 (week 105 100)"

subsection \<open>Vocabulary for the normalizer\<close>







subsection \<open>Sample raw records\<close>






section \<open>Facts about the builtins\<close>

lemma foldl_keep_min: "foldl (\<lambda>m y. if y < m then y else m) (x::real) xs = Min (set (x # xs))"
proof (induction xs arbitrary: x)
  case Nil
  show ?case by simp
next
  case (Cons y ys)
  have "Min (set ((if y < x then y else x) # ys)) = Min (set (x # y # ys))"
    by (cases "ys = []") (auto simp: min_def)
  with Cons show ?case by simp
qed

lemma foldl_keep_max: "foldl (\<lambda>m y. if y > m then y else m) (x::real) xs = Max (set (x # xs))"
proof (induction xs arbitrary: x)
  case Nil
  show ?case by simp
next
  case (Cons y ys)
  have "Max (set ((if y > x then y else x) # ys)) = Max (set (x # y # ys))"
    by (cases "ys = []") (auto simp: max_def)
  with Cons show ?case by simp
qed

lemma py_min_Min: "xs \<noteq> [] \<Longrightarrow> py_min xs = Inr (Min (set xs))"
  by (cases xs) (simp_all only: py_min.simps foldl_keep_min, simp)

lemma py_max_Max: "xs \<noteq> [] \<Longrightarrow> py_max xs = Inr (Max (set xs))"
  by (cases xs) (simp_all only: py_max.simps foldl_keep_max, simp)

lemma py_slice_prefix: "0 \<le> k \<Longrightarrow> py_slice None (Some k) xs = take (nat k) xs"
  by (simp add: py_slice_def slice_bound_def min_def Let_def)

lemma py_slice_recent: "py_slice (Some (- 26)) None xs = drop (length xs - 26) xs"
  by (simp add: py_slice_def slice_bound_def nat_diff_distrib')

lemma py_slice_older:
  "py_slice (Some (- 52)) (Some (- 26)) xs = drop (length xs - 52) (take (length xs - 26) xs)"
  by (simp add: py_slice_def slice_bound_def nat_diff_distrib' Let_def)

lemma py_item_last: "xs \<noteq> [] \<Longrightarrow> py_item xs (- 1) = Inr (last xs)"
  by (simp add: py_item_def last_conv_nth nat_diff_distrib')

lemma divergences_short: "length dd \<le> 26 \<Longrightarrow> divergences c dd = Inl ValueError"
proof (cases "dd = []")
  case True
  then show ?thesis by (simp add: divergences_def py_slice_recent)
next
  case False
  assume "length dd \<le> 26"
  with False have "py_min (py_slice (Some (- 26)) None (map hf_net dd)) = Inr (Min (set (map hf_net dd)))"
    and "py_slice (Some (- 52)) (Some (- 26)) (map hf_net dd) = []"
    by (simp_all add: py_slice_recent py_slice_older py_min_Min)
  then show ?thesis by (simp add: divergences_def)
qed

lemma divergences_long:
  assumes "26 < length dd"
  shows "divergences c dd =
    Inr (Min (set (drop (length dd - 26) (map hf_net dd)))
           > Min (set (drop (length dd - 52) (take (length dd - 26) (map hf_net dd))))
         \<and> c < hf_net (last dd),
         Max (set (drop (length dd - 26) (map hf_net dd)))
           < Max (set (drop (length dd - 52) (take (length dd - 26) (map hf_net dd))))
         \<and> c > hf_net (last dd))"
proof -
  let ?nets = "map hf_net dd"
  from assms have ne: "?nets \<noteq> []" by auto
  from assms have r: "py_slice (Some (- 26)) None ?nets \<noteq> []"
    by (simp add: py_slice_recent)
  from assms have "length dd - 52 < length dd - 26" by arith
  then have o: "py_slice (Some (- 52)) (Some (- 26)) ?nets \<noteq> []"
    by (simp add: py_slice_older)
  from ne have l: "py_item ?nets (- 1) = Inr (hf_net (last dd))"
    by (simp add: py_item_last last_map)
  show ?thesis
    unfolding divergences_def Let_def py_min_Min [OF r] py_min_Min [OF o]
      py_max_Max [OF r] py_max_Max [OF o] l
    by (simp add: py_slice_recent py_slice_older)
qed


section \<open>The stages of detect_signals\<close>

lemma extremes_window:
  "w \<noteq> [] \<Longrightarrow> extremes c w = Inr (c = Min (hf_net ` set w), c = Max (hf_net ` set w))"
  by (simp add: extremes_def py_min_Min py_max_Max)

lemma extremes_empty: "extremes c [] = Inl ValueError"
  by (simp add: extremes_def)

lemma detect_signals_short:
  "length data < 2 \<Longrightarrow> detect_signals data D E = Inr insufficient_result"
  by (simp add: detect_signals_def)

lemma detect_signals_result:
  assumes "2 \<le> length data" and "detect_signals data D E = Inr r"
  shows "\<exists>bd brd eb ebr.
    extremes (hf_net (data ! 0)) (py_slice None (Some (min E (int (length data)))) data)
      = Inr (eb, ebr)
    \<and> divergences (hf_net (data ! 0)) (py_slice None (Some (min D (int (length data)))) data)
      = Inr (bd, brd)
    \<and> r = signal_result (data ! 0) (hf_net (data ! 0)) bd brd eb ebr (classify bd brd eb ebr)"
  using assms
  by (auto simp: detect_signals_def Let_def split: sum.splits prod.splits)

lemma insufficient_result_lookup:
  "map_of insufficient_result ''current_net'' = Some (VNum 0)"
  "map_of insufficient_result ''hf_long'' = None"
  "map_of insufficient_result ''hf_short'' = None"
  "map_of insufficient_result ''bullish_divergence'' = Some (VBool False)"
  "map_of insufficient_result ''bearish_divergence'' = Some (VBool False)"
  "map_of insufficient_result ''extreme_bullish'' = Some (VBool False)"
  "map_of insufficient_result ''extreme_bearish'' = Some (VBool False)"
  "map_of insufficient_result ''status'' = Some (VStatus INSUFFICIENT_DATA)"
  "map_of insufficient_result ''date'' = None"
  by (simp_all add: insufficient_result_def)

lemma signal_result_lookup:
  "map_of (signal_result cur c bd brd eb ebr st) ''current_net'' = Some (VNum (py_round c 2))"
  "map_of (signal_result cur c bd brd eb ebr st) ''hf_long''
     = Some (VNum (py_round (hf_long cur) 2))"
  "map_of (signal_result cur c bd brd eb ebr st) ''hf_short''
     = Some (VNum (py_round (hf_short cur) 2))"
  "map_of (signal_result cur c bd brd eb ebr st) ''bullish_divergence'' = Some (VBool bd)"
  "map_of (signal_result cur c bd brd eb ebr st) ''bearish_divergence'' = Some (VBool brd)"
  "map_of (signal_result cur c bd brd eb ebr st) ''extreme_bullish'' = Some (VBool eb)"
  "map_of (signal_result cur c bd brd eb ebr st) ''extreme_bearish'' = Some (VBool ebr)"
  "map_of (signal_result cur c bd brd eb ebr st) ''status'' = Some (VStatus st)"
  "map_of (signal_result cur c bd brd eb ebr st) ''date'' = Some (VJson (date cur))"
  by (simp_all add: signal_result_def)

lemma result_keys:
  "map fst insufficient_result =
     [''current_net'', ''bullish_divergence'', ''bearish_divergence'',
      ''extreme_bullish'', ''extreme_bearish'', ''status'']"
  "map fst (signal_result cur c bd brd eb ebr st) =
     [''current_net'', ''hf_long'', ''hf_short'', ''bullish_divergence'',
      ''bearish_divergence'', ''extreme_bullish'', ''extreme_bearish'', ''status'', ''date'']"
  by (simp_all add: insufficient_result_def signal_result_def)

lemma one_status:
  "length (filter (\<lambda>kv. fst kv = ''status'') insufficient_result) = 1"
  "length (filter (\<lambda>kv. fst kv = ''status'') (signal_result cur c bd brd eb ebr st)) = 1"
  by (simp_all add: insufficient_result_def signal_result_def)

lemma round_half_even_of_int: "round_half_even (of_int k) = k"
  by (simp add: round_half_even_def)

lemma py_round_whole:
  assumes "x \<in> \<int>"
  shows "py_round x 2 = x"
proof -
  from assms obtain k where k: "x = of_int k" by (auto elim: Ints_cases)
  have "x * 10 ^ 2 = of_int (k * 100)" by (simp add: k)
  then have "round_half_even (x * 10 ^ 2) = k * 100"
    by (simp only: round_half_even_of_int)
  then show ?thesis by (simp add: py_round_def k)
qed

lemma detect_signals_returns:
  assumes "27 \<le> length data" and "27 \<le> D" and "1 \<le> E"
  shows "\<exists>r. detect_signals data D E = Inr r"
proof -
  let ?dd = "py_slice None (Some (min D (int (length data)))) data"
  let ?ed = "py_slice None (Some (min E (int (length data)))) data"
  from assms have "?dd = take (nat (min D (int (length data)))) data"
    by (simp add: py_slice_prefix)
  with assms have "26 < length ?dd" by (auto simp: min_def)
  from divergences_long [OF this] obtain p where d: "divergences (hf_net (data ! 0)) ?dd = Inr p"
    by blast
  from assms have "?ed \<noteq> []" by (auto simp: py_slice_prefix min_def)
  from extremes_window [OF this] obtain q where e: "extremes (hf_net (data ! 0)) ?ed = Inr q"
    by blast
  from assms d e show ?thesis
    by (cases p; cases q) (simp add: detect_signals_def Let_def)
qed

lemma length_py_slice: "length (py_slice lo hi xs) \<le> length xs"
  by (simp add: py_slice_def Let_def)

lemma extremes_error: "extremes c w = Inl e \<Longrightarrow> e = ValueError"
  by (cases w) (simp_all add: extremes_def)

text \<open>With 2 to 26 records no window sizes make the function return: the older half of
  the divergence window is empty.\<close>

lemma detect_signals_raises:
  assumes "2 \<le> length data" and "length data \<le> 26"
  shows "detect_signals data D E = Inl ValueError"
proof -
  let ?dd = "py_slice None (Some (min D (int (length data)))) data"
  let ?ed = "py_slice None (Some (min E (int (length data)))) data"
  from assms(2) length_py_slice [of None "Some (min D (int (length data)))" data]
  have "length ?dd \<le> 26" by simp
  then have d: "divergences (hf_net (data ! 0)) ?dd = Inl ValueError"
    by (rule divergences_short)
  show ?thesis
  proof (cases "extremes (hf_net (data ! 0)) ?ed")
    case (Inl e)
    with extremes_error [OF Inl] assms(1) show ?thesis
      by (simp add: detect_signals_def Let_def)
  next
    case (Inr p)
    with d assms(1) show ?thesis
      by (cases p) (simp add: detect_signals_def Let_def)
  qed
qed

text \<open>With 52 or more records, newest first, and the default window: the code's
  \<open>recent\<close> half is records 26 to 51 (the oldest of the window) and its \<open>older\<close> half is
  records 0 to 25 (the newest).\<close>

lemma divergences_as_coded:
  assumes "52 \<le> length data"
  shows "divergences c (py_slice None (Some (min 52 (int (length data)))) data) =
    Inr (Min (hf_net ` set (drop 26 (take 52 data))) > Min (hf_net ` set (take 26 data))
           \<and> c < hf_net (data ! 51),
         Max (hf_net ` set (drop 26 (take 52 data))) < Max (hf_net ` set (take 26 data))
           \<and> c > hf_net (data ! 51))"
proof -
  let ?dd = "take 52 data"
  from assms have dd: "py_slice None (Some (min 52 (int (length data)))) data = ?dd"
    by (simp add: py_slice_prefix)
  from assms have len: "length ?dd = 52" by simp
  then have long: "26 < length ?dd" by simp
  from len have "?dd \<noteq> []" by auto
  then have "last ?dd = ?dd ! (length ?dd - 1)" by (rule last_conv_nth)
  also have "\<dots> = ?dd ! 51" by (simp only: len) simp
  also have "\<dots> = data ! 51" by simp
  finally have l: "last ?dd = data ! 51" .
  have r: "drop (length ?dd - 26) (map hf_net ?dd) = map hf_net (drop 26 ?dd)"
    by (simp only: len drop_map) simp
  have o: "drop (length ?dd - 52) (take (length ?dd - 26) (map hf_net ?dd))
             = map hf_net (take 26 data)"
    by (simp only: len) (simp add: take_map)
  show ?thesis
    unfolding dd divergences_long [OF long] r o l by simp
qed

section \<open>The normalizer loop\<close>







section \<open>The claims\<close>

text \<open>
  C6. For every series of fewer than two records, \<open>detect_signals\<close> returns, with status
  INSUFFICIENT_DATA and the four flags false, whatever the two window sizes are.
\<close>

theorem insufficient_data_sentinel:
  assumes "length data < 2"
  shows "\<exists>r. detect_signals data D E = Inr r
           \<and> map_of r ''status'' = Some (VStatus INSUFFICIENT_DATA)
           \<and> map_of r ''bullish_divergence'' = Some (VBool False)
           \<and> map_of r ''bearish_divergence'' = Some (VBool False)
           \<and> map_of r ''extreme_bullish'' = Some (VBool False)
           \<and> map_of r ''extreme_bearish'' = Some (VBool False)"
  by (simp add: detect_signals_short [OF assms] insufficient_result_lookup)

theorem insufficient_data_sentinel_witness:
  "length [week 3 1] < 2
   \<and> (\<exists>r. detect_signals [week 3 1] 52 156 = Inr r
           \<and> map_of r ''status'' = Some (VStatus INSUFFICIENT_DATA)
           \<and> map_of r ''bullish_divergence'' = Some (VBool False)
           \<and> map_of r ''bearish_divergence'' = Some (VBool False)
           \<and> map_of r ''extreme_bullish'' = Some (VBool False)
           \<and> map_of r ''extreme_bearish'' = Some (VBool False))"
proof -
  have short: "length [week 3 1] < 2" by simp
  from insufficient_data_sentinel [OF short, of 52 156] short show ?thesis by blast
qed

text \<open>
  C1. The claim: a series whose divergence window holds fewer than 52 records (so every
  series of 2 to 51 records) makes \<open>detect_signals\<close> return, with both divergence flags
  false. The code has no such guard. On the two-week series the slice
  \<open>divergence_nets[-52:-26]\<close> is empty and \<open>min\<close> raises ValueError; on the 27-week series
  \<open>short_history\<close> the function returns with bullish_divergence true.
\<close>

theorem short_series_raises:
  "detect_signals two_weeks 52 156 = Inl ValueError
   \<and> detect_signals short_history 52 156 =
       Inr [(''current_net'', VNum 0),
            (''hf_long'', VNum 100),
            (''hf_short'', VNum 100),
            (''bullish_divergence'', VBool True),
            (''bearish_divergence'', VBool False),
            (''extreme_bullish'', VBool True),
            (''extreme_bearish'', VBool False),
            (''status'', VStatus BULLISH_DIVERGENCE),
            (''date'', VJson (JStr ''2024-01-02''))]"
  by code_simp

text \<open>
  C2. The claim: with 52 or more records, newest first, bullish_divergence holds exactly
  when the minimum over the newest 26 records exceeds the minimum over the 26 before them
  and the current net is below the oldest record of the window. Scenario C satisfies that
  condition (minimum 5 over the newest 26, minimum 0 over the older 26, current 5 below
  the oldest 10), and the code returns bullish_divergence false: its \<open>recent_low\<close> is taken
  over \<open>divergence_nets[-26:]\<close>, the oldest 26 records of a newest-first window.
\<close>

theorem scenario_c_not_bullish:
  "detect_signals scenario_c 52 156 =
     Inr [(''current_net'', VNum 5),
          (''hf_long'', VNum 105),
          (''hf_short'', VNum 100),
          (''bullish_divergence'', VBool False),
          (''bearish_divergence'', VBool False),
          (''extreme_bullish'', VBool False),
          (''extreme_bearish'', VBool False),
          (''status'', VStatus NEUTRAL),
          (''date'', VJson (JStr ''2024-01-02''))]"
  by code_simp

text \<open>
  C10. Whenever \<open>detect_signals\<close> returns, bullish_divergence and bearish_divergence are
  not both true: for a series of two or more records the first needs the current net
  strictly below, the second strictly above, the net of the last record of the
  divergence window.
\<close>

theorem divergence_flags_exclusive:
  assumes "detect_signals data D E = Inr r"
  shows "\<not> (map_of r ''bullish_divergence'' = Some (VBool True)
            \<and> map_of r ''bearish_divergence'' = Some (VBool True))
         \<and> (2 \<le> length data \<longrightarrow>
              (map_of r ''bullish_divergence'' = Some (VBool True) \<longrightarrow>
                 hf_net (data ! 0)
                   < hf_net (last (py_slice None (Some (min D (int (length data)))) data)))
            \<and> (map_of r ''bearish_divergence'' = Some (VBool True) \<longrightarrow>
                 hf_net (data ! 0)
                   > hf_net (last (py_slice None (Some (min D (int (length data)))) data))))"
proof (cases "length data < 2")
  case True
  from detect_signals_short [OF True, of D E] assms
  have "map_of r ''bullish_divergence'' = Some (VBool False)"
    by (simp add: insufficient_result_lookup)
  with True show ?thesis by simp
next
  case False
  then have two: "2 \<le> length data" by simp
  let ?dd = "py_slice None (Some (min D (int (length data)))) data"
  from detect_signals_result [OF two assms] obtain bd brd eb ebr where
    d: "divergences (hf_net (data ! 0)) ?dd = Inr (bd, brd)" and
    r: "r = signal_result (data ! 0) (hf_net (data ! 0)) bd brd eb ebr (classify bd brd eb ebr)"
    by blast
  have "26 < length ?dd"
  proof (rule ccontr)
    assume "\<not> 26 < length ?dd"
    then have "divergences (hf_net (data ! 0)) ?dd = Inl ValueError"
      by (simp add: divergences_short)
    with d show False by simp
  qed
  from divergences_long [OF this, of "hf_net (data ! 0)"] d
  have "bd \<longrightarrow> hf_net (data ! 0) < hf_net (last ?dd)"
    and "brd \<longrightarrow> hf_net (data ! 0) > hf_net (last ?dd)"
    by auto
  then show ?thesis unfolding r signal_result_lookup by auto
qed

theorem divergence_flags_exclusive_witness:
  "detect_signals short_history 52 156 =
     Inr (signal_result (week 100 100) 0 True False True False BULLISH_DIVERGENCE)
   \<and> 2 \<le> length short_history
   \<and> map_of (signal_result (week 100 100) 0 True False True False BULLISH_DIVERGENCE)
        ''bullish_divergence'' = Some (VBool True)
   \<and> map_of (signal_result (week 100 100) 0 True False True False BULLISH_DIVERGENCE)
        ''bearish_divergence'' \<noteq> Some (VBool True)
   \<and> hf_net (short_history ! 0)
       < hf_net (last (py_slice None (Some (min 52 (int (length short_history)))) short_history))"
proof -
  have run: "detect_signals short_history 52 156 =
     Inr (signal_result (week 100 100) 0 True False True False BULLISH_DIVERGENCE)"
    by code_simp
  have len: "2 \<le> length short_history" by (simp add: short_history_def)
  have bull: "map_of (signal_result (week 100 100) 0 True False True False BULLISH_DIVERGENCE)
        ''bullish_divergence'' = Some (VBool True)"
    by (simp add: signal_result_lookup)
  from divergence_flags_exclusive [OF run] len run bull show ?thesis by simp
qed

text \<open>
  C4. The claim: every result, also that for fewer than two records, holds current_net,
  hf_long, hf_short, date, the four flags and status. The dict returned for fewer than two
  records has six keys, those the docstring lists, and no hf_long, hf_short or date.
  Amended: whenever \<open>detect_signals\<close> returns, the result holds current_net, the four
  flags and status; for a series of two or more records it also holds hf_long, hf_short
  and date, and for a shorter one it holds no other key.
\<close>

theorem result_fields:
  assumes "detect_signals data D E = Inr r"
  shows "map fst r =
    (if length data < 2
     then [''current_net'', ''bullish_divergence'', ''bearish_divergence'',
           ''extreme_bullish'', ''extreme_bearish'', ''status'']
     else [''current_net'', ''hf_long'', ''hf_short'', ''bullish_divergence'',
           ''bearish_divergence'', ''extreme_bullish'', ''extreme_bearish'',
           ''status'', ''date''])"
proof (cases "length data < 2")
  case True
  from detect_signals_short [OF True, of D E] assms have "r = insufficient_result" by simp
  with True show ?thesis by (simp only: result_keys if_True)
next
  case False
  then have "2 \<le> length data" by simp
  from detect_signals_result [OF this assms] obtain bd brd eb ebr where
    "r = signal_result (data ! 0) (hf_net (data ! 0)) bd brd eb ebr (classify bd brd eb ebr)"
    by blast
  with False show ?thesis by (simp only: result_keys if_False)
qed

theorem result_fields_witness:
  "detect_signals scenario_c 52 156 =
     Inr (signal_result (week 105 100) 5 False False False False NEUTRAL)
   \<and> \<not> length scenario_c < 2
   \<and> map fst (signal_result (week 105 100) 5 False False False False NEUTRAL) =
       [''current_net'', ''hf_long'', ''hf_short'', ''bullish_divergence'',
        ''bearish_divergence'', ''extreme_bullish'', ''extreme_bearish'',
        ''status'', ''date'']"
proof -
  have run: "detect_signals scenario_c 52 156 =
     Inr (signal_result (week 105 100) 5 False False False False NEUTRAL)"
    by code_simp
  have len: "\<not> length scenario_c < 2" by (simp add: scenario_c_def)
  from result_fields [OF run] len run show ?thesis by simp
qed

theorem sentinel_lacks_fields:
  "(case detect_signals [week 120 100] 52 156 of
      Inl e \<Rightarrow> False
    | Inr r \<Rightarrow> map_of r ''hf_long'' = None \<and> map_of r ''hf_short'' = None
              \<and> map_of r ''date'' = None)"
  by code_simp

text \<open>
  C5. The claim: current_net of the result equals hf_net of the first record. The code
  returns \<open>round(current_net, 2)\<close>. Amended: for a series of two or more records on which
  \<open>detect_signals\<close> returns, current_net is hf_net of the first record rounded to two
  decimals, which is hf_net itself when hf_net is a whole number.
\<close>

theorem current_net_rounded:
  assumes "2 \<le> length data" and "detect_signals data D E = Inr r"
  shows "map_of r ''current_net'' = Some (VNum (py_round (hf_net (data ! 0)) 2))
         \<and> (hf_net (data ! 0) \<in> \<int> \<longrightarrow>
              map_of r ''current_net'' = Some (VNum (hf_net (data ! 0))))"
proof -
  from detect_signals_result [OF assms] obtain bd brd eb ebr where
    "r = signal_result (data ! 0) (hf_net (data ! 0)) bd brd eb ebr (classify bd brd eb ebr)"
    by blast
  then have "map_of r ''current_net'' = Some (VNum (py_round (hf_net (data ! 0)) 2))"
    by (simp only: signal_result_lookup)
  then show ?thesis by (simp add: py_round_whole)
qed

theorem current_net_rounded_witness:
  "2 \<le> length scenario_c
   \<and> detect_signals scenario_c 52 156 =
       Inr (signal_result (week 105 100) 5 False False False False NEUTRAL)
   \<and> hf_net (scenario_c ! 0) \<in> \<int>
   \<and> map_of (signal_result (week 105 100) 5 False False False False NEUTRAL) ''current_net''
       = Some (VNum (hf_net (scenario_c ! 0)))"
proof -
  have run: "detect_signals scenario_c 52 156 =
     Inr (signal_result (week 105 100) 5 False False False False NEUTRAL)"
    by code_simp
  have len: "2 \<le> length scenario_c" by (simp add: scenario_c_def)
  have "hf_net (scenario_c ! 0) = 5" by (simp add: scenario_c_def week_def nth_append)
  then have whole: "hf_net (scenario_c ! 0) \<in> \<int>" by simp
  from current_net_rounded [OF len run] whole
  have "map_of (signal_result (week 105 100) 5 False False False False NEUTRAL) ''current_net''
       = Some (VNum (hf_net (scenario_c ! 0)))"
    by (rule mp [OF conjunct2])
  with len run whole show ?thesis by (intro conjI)
qed

theorem current_net_not_hf_net:
  "(case detect_signals fractional_weeks 52 156 of
      Inl e \<Rightarrow> False
    | Inr r \<Rightarrow> map_of r ''current_net'' = Some (VNum (5003 / 50)))
   \<and> hf_net (fractional_weeks ! 0) = 1601 / 16
   \<and> VNum (5003 / 50) \<noteq> VNum (1601 / 16)"
  by code_simp

text \<open>
  C7. The claim: for every series the one status is chosen by the precedence bullish
  divergence, bearish divergence, extreme bullish, extreme bearish, neutral. For fewer
  than two records the status is INSUFFICIENT_DATA, where that precedence gives NEUTRAL.
  Amended: whenever \<open>detect_signals\<close> returns, the result carries exactly one status:
  INSUFFICIENT_DATA for fewer than two records, and otherwise the label the precedence
  chooses from the four flags of the result.
\<close>

theorem status_by_precedence:
  assumes "detect_signals data D E = Inr r"
  shows "\<exists>bd brd eb ebr.
           map_of r ''bullish_divergence'' = Some (VBool bd)
         \<and> map_of r ''bearish_divergence'' = Some (VBool brd)
         \<and> map_of r ''extreme_bullish'' = Some (VBool eb)
         \<and> map_of r ''extreme_bearish'' = Some (VBool ebr)
         \<and> length (filter (\<lambda>kv. fst kv = ''status'') r) = 1
         \<and> map_of r ''status'' = Some (VStatus
              (if length data < 2 then INSUFFICIENT_DATA
               else if bd then BULLISH_DIVERGENCE
               else if brd then BEARISH_DIVERGENCE
               else if eb then EXTREME_BULLISH
               else if ebr then EXTREME_BEARISH
               else NEUTRAL))"
proof (cases "length data < 2")
  case True
  from detect_signals_short [OF True, of D E] assms have "r = insufficient_result" by simp
  with True show ?thesis
    by (simp only: insufficient_result_lookup one_status if_True) blast
next
  case False
  then have "2 \<le> length data" by simp
  from detect_signals_result [OF this assms] obtain bd brd eb ebr where
    r: "r = signal_result (data ! 0) (hf_net (data ! 0)) bd brd eb ebr (classify bd brd eb ebr)"
    by blast
  have "map_of r ''bullish_divergence'' = Some (VBool bd)"
    and "map_of r ''bearish_divergence'' = Some (VBool brd)"
    and "map_of r ''extreme_bullish'' = Some (VBool eb)"
    and "map_of r ''extreme_bearish'' = Some (VBool ebr)"
    and "length (filter (\<lambda>kv. fst kv = ''status'') r) = 1"
    and "map_of r ''status'' = Some (VStatus
              (if length data < 2 then INSUFFICIENT_DATA
               else if bd then BULLISH_DIVERGENCE
               else if brd then BEARISH_DIVERGENCE
               else if eb then EXTREME_BULLISH
               else if ebr then EXTREME_BEARISH
               else NEUTRAL))"
    using False by (simp_all only: r signal_result_lookup one_status classify_def if_False)
  then show ?thesis by blast
qed

theorem status_by_precedence_witness:
  "detect_signals short_history 52 156 =
     Inr (signal_result (week 100 100) 0 True False True False BULLISH_DIVERGENCE)
   \<and> (\<exists>bd brd eb ebr.
           map_of (signal_result (week 100 100) 0 True False True False BULLISH_DIVERGENCE)
             ''bullish_divergence'' = Some (VBool bd)
         \<and> map_of (signal_result (week 100 100) 0 True False True False BULLISH_DIVERGENCE)
             ''bearish_divergence'' = Some (VBool brd)
         \<and> map_of (signal_result (week 100 100) 0 True False True False BULLISH_DIVERGENCE)
             ''extreme_bullish'' = Some (VBool eb)
         \<and> map_of (signal_result (week 100 100) 0 True False True False BULLISH_DIVERGENCE)
             ''extreme_bearish'' = Some (VBool ebr)
         \<and> length (filter (\<lambda>kv. fst kv = ''status'')
             (signal_result (week 100 100) 0 True False True False BULLISH_DIVERGENCE)) = 1
         \<and> map_of (signal_result (week 100 100) 0 True False True False BULLISH_DIVERGENCE)
             ''status'' = Some (VStatus
              (if length short_history < 2 then INSUFFICIENT_DATA
               else if bd then BULLISH_DIVERGENCE
               else if brd then BEARISH_DIVERGENCE
               else if eb then EXTREME_BULLISH
               else if ebr then EXTREME_BEARISH
               else NEUTRAL)))"
proof -
  have run: "detect_signals short_history 52 156 =
     Inr (signal_result (week 100 100) 0 True False True False BULLISH_DIVERGENCE)"
    by code_simp
  from status_by_precedence [OF run] run show ?thesis by (intro conjI)
qed

theorem insufficient_status_outside_precedence:
  "(case detect_signals [week 120 100] 52 156 of
      Inl e \<Rightarrow> False
    | Inr r \<Rightarrow> map_of r ''status'' = Some (VStatus INSUFFICIENT_DATA)
              \<and> map_of r ''bullish_divergence'' = Some (VBool False)
              \<and> map_of r ''bearish_divergence'' = Some (VBool False)
              \<and> map_of r ''extreme_bullish'' = Some (VBool False)
              \<and> map_of r ''extreme_bearish'' = Some (VBool False))
   \<and> classify False False False False = NEUTRAL
   \<and> INSUFFICIENT_DATA \<noteq> NEUTRAL"
  by code_simp

text \<open>
  C8. For a series of two or more records and a window size E of at least one, clipped
  to the length of the series, the extreme stage computes extreme_bullish as "current net
  equals the minimum hf_net of the newest E records" and extreme_bearish as "current net
  equals the maximum", by exact equality, and these are the flags of every result
  returned. With 27 or more records and a divergence window of at least 27 a result is
  returned; for 156 weeks whose current net is the maximum of all of them,
  extreme_bearish is true.
\<close>

theorem extreme_flags_exact:
  assumes "2 \<le> length data" and "1 \<le> E"
  shows "extremes (hf_net (data ! 0)) (py_slice None (Some (min E (int (length data)))) data)
           = Inr (hf_net (data ! 0) = Min (hf_net ` set (take (min (nat E) (length data)) data)),
                  hf_net (data ! 0) = Max (hf_net ` set (take (min (nat E) (length data)) data)))
       \<and> (\<forall>r. detect_signals data D E = Inr r \<longrightarrow>
             map_of r ''extreme_bullish'' = Some (VBool
               (hf_net (data ! 0) = Min (hf_net ` set (take (min (nat E) (length data)) data))))
           \<and> map_of r ''extreme_bearish'' = Some (VBool
               (hf_net (data ! 0) = Max (hf_net ` set (take (min (nat E) (length data)) data)))))
       \<and> (27 \<le> length data \<and> 27 \<le> D \<longrightarrow> (\<exists>r. detect_signals data D E = Inr r))
       \<and> (length data = 156 \<and> hf_net (data ! 0) = Max (hf_net ` set data) \<longrightarrow>
            (\<exists>r. detect_signals data 52 156 = Inr r
                 \<and> map_of r ''extreme_bearish'' = Some (VBool True)))"
proof -
  let ?cur = "hf_net (data ! 0)"
  let ?w = "take (min (nat E) (length data)) data"
  let ?ed = "py_slice None (Some (min E (int (length data)))) data"
  from assms have "nat (min E (int (length data))) = min (nat E) (length data)" by linarith
  with assms have w: "?ed = ?w" by (simp add: py_slice_prefix)
  from assms have ne: "?w \<noteq> []" by auto
  have ex: "extremes ?cur ?ed = Inr (?cur = Min (hf_net ` set ?w), ?cur = Max (hf_net ` set ?w))"
    unfolding w by (rule extremes_window [OF ne])
  have flags: "map_of r ''extreme_bullish'' = Some (VBool (?cur = Min (hf_net ` set ?w)))
             \<and> map_of r ''extreme_bearish'' = Some (VBool (?cur = Max (hf_net ` set ?w)))"
    if "detect_signals data D E = Inr r" for r D
  proof -
    from detect_signals_result [OF assms(1) that] obtain bd brd eb ebr where
      e: "extremes ?cur ?ed = Inr (eb, ebr)" and
      r: "r = signal_result (data ! 0) ?cur bd brd eb ebr (classify bd brd eb ebr)"
      by blast
    from e ex have "eb = (?cur = Min (hf_net ` set ?w))" and "ebr = (?cur = Max (hf_net ` set ?w))"
      by simp_all
    then show ?thesis by (simp only: r signal_result_lookup)
  qed
  have ret: "\<exists>r. detect_signals data D E = Inr r" if "27 \<le> length data" and "27 \<le> D"
    using detect_signals_returns [OF that assms(2)] .
  have scen: "\<exists>r. detect_signals data 52 156 = Inr r
                 \<and> map_of r ''extreme_bearish'' = Some (VBool True)"
    if len: "length data = 156" and top: "?cur = Max (hf_net ` set data)"
  proof -
    from len have two: "2 \<le> length data" by simp
    from len have "27 \<le> length data" by simp
    from detect_signals_returns [OF this, of 52 156] obtain r where
      run: "detect_signals data 52 156 = Inr r" by auto
    from detect_signals_result [OF two run] obtain bd brd eb ebr where
      e: "extremes ?cur (py_slice None (Some (min 156 (int (length data)))) data) = Inr (eb, ebr)"
      and r: "r = signal_result (data ! 0) ?cur bd brd eb ebr (classify bd brd eb ebr)"
      by blast
    from len have all: "py_slice None (Some (min 156 (int (length data)))) data = data"
      by (simp add: py_slice_prefix)
    from len have "data \<noteq> []" by auto
    from extremes_window [OF this, of ?cur] e top have "ebr" unfolding all by simp
    then have "map_of r ''extreme_bearish'' = Some (VBool True)"
      by (simp only: r signal_result_lookup)
    with run show ?thesis by blast
  qed
  from ex flags ret scen show ?thesis by blast
qed


theorem extreme_flags_exact_witness:
  "2 \<le> length scenario_d \<and> (1::int) \<le> 156 \<and> length scenario_d = 156
   \<and> hf_net (scenario_d ! 0) = Max (hf_net ` set scenario_d)
   \<and> (\<exists>r. detect_signals scenario_d 52 156 = Inr r
           \<and> map_of r ''extreme_bearish'' = Some (VBool True))"
proof -
  have len: "length scenario_d = 156" by (simp add: scenario_d_def)
  then have two: "2 \<le> length scenario_d" by simp
  have one: "(1::int) \<le> 156" by simp
  have top: "hf_net (scenario_d ! 0) = Max (hf_net ` set scenario_d)"
    by (simp add: scenario_d_def week_def)
  from extreme_flags_exact [OF two one, of 52] len top
  have "\<exists>r. detect_signals scenario_d 52 156 = Inr r
           \<and> map_of r ''extreme_bearish'' = Some (VBool True)"
    by blast
  with len two one top show ?thesis by (intro conjI)
qed







end
